theory Spec2Isabelle
  imports Main
begin

section \<open>The standard streams\<close>

text \<open>
  The program of \<^verbatim>\<open>src/server/src/main.cpp\<close> talks to the world through
  \<^verbatim>\<open>std::cin\<close> and \<^verbatim>\<open>std::cout\<close> only. Standard output is the list of lines
  written so far, one entry for each \<^verbatim>\<open>... << std::endl\<close>. Standard input is the
  characters that arrive on the stream and have not been consumed yet, whether
  end-of-file follows them (\<open>closed\<close>) or the stream stays open with nothing more to
  come, and the two state bits of the stream that the extraction operator reads and
  sets.
\<close>

record istream =
  buf :: string
  closed :: bool
  eofbit :: bool
  failbit :: bool

text \<open>The whitespace of the classic locale, which the extraction operator skips.\<close>

definition isspace :: "char \<Rightarrow> bool" where
  "isspace c = (c = CHR '' '' \<or> c = CHR 0x09 \<or> c = CHR 0x0A \<or> c = CHR 0x0B
                \<or> c = CHR 0x0C \<or> c = CHR 0x0D)"

text \<open>
  \<^verbatim>\<open>std::cin >> a\<close> for \<^verbatim>\<open>char a\<close>. The sentry fails at once on a stream that is not
  good, setting \<open>failbit\<close>. Otherwise leading whitespace is skipped; at end-of-file
  both bits are set; in either failure the variable keeps its value. With a
  non-whitespace character at hand, that one character is consumed and stored.
  On an open stream with nothing but whitespace left the call never returns: \<open>None\<close>.
\<close>

definition extract_char :: "istream \<Rightarrow> char \<Rightarrow> (istream \<times> char) option" where
  "extract_char s a =
     (if eofbit s \<or> failbit s then Some (s\<lparr>failbit := True\<rparr>, a)
      else case dropWhile isspace (buf s) of
             [] \<Rightarrow> if closed s then Some (s\<lparr>buf := [], eofbit := True, failbit := True\<rparr>, a)
                   else None
           | c # rest \<Rightarrow> Some (s\<lparr>buf := rest\<rparr>, c))"

text \<open>\<^verbatim>\<open>std::cout << i\<close> for \<^verbatim>\<open>int i\<close>: the decimal numeral.\<close>

definition digit_char :: "nat \<Rightarrow> char" where
  "digit_char d = ''0123456789'' ! (d mod 10)"

function dec_digits :: "nat \<Rightarrow> string" where
  "dec_digits n = (if n < 10 then [digit_char n] else dec_digits (n div 10) @ [digit_char n])"
  by pat_completeness auto
termination
  by (relation "measure id") auto

declare dec_digits.simps [simp del]

definition show_int :: "int \<Rightarrow> string" where
  "show_int i = (if i < 0 then CHR ''-'' # dec_digits (nat (- i)) else dec_digits (nat i))"

section \<open>The program\<close>

text \<open>
  The state of a run: the two streams, the variable \<^verbatim>\<open>char a\<close>, and the seconds the
  thread has been suspended for by \<^verbatim>\<open>sleep\<close>.
\<close>

record state =
  cin :: istream
  cout :: "string list"
  a :: char
  slept :: int

text \<open>\<^verbatim>\<open>sleep(seconds)\<close>: suspends the thread; a negative duration does not wait.\<close>

definition sleep :: "int \<Rightarrow> state \<Rightarrow> state" where
  "sleep seconds s = s\<lparr>slept := slept s + max 0 seconds\<rparr>"

text \<open>
  \<^verbatim>\<open>for ( int i = 0 ; i < 5; ++i ) { std::cout << i << std::endl; sleep(1); }\<close>
  The counter never leaves the range from 0 to 5, so the bounds of \<^verbatim>\<open>int\<close> play no part.
\<close>

function for_loop :: "int \<Rightarrow> state \<Rightarrow> state" where
  "for_loop i s =
     (if i < 5 then for_loop (i + 1) (sleep 1 (s\<lparr>cout := cout s @ [show_int i]\<rparr>)) else s)"
  by pat_completeness auto
termination
  by (relation "measure (\<lambda>(i, s). nat (5 - i))") auto

declare for_loop.simps [simp del]

text \<open>
  How a run stands after a number of iterations of the echo loop: still in the loop,
  inside an extraction that never returns, or past \<^verbatim>\<open>return 0\<close>.
\<close>

datatype status = Running | Blocked | Exited int

definition echo :: "char \<Rightarrow> string" where
  "echo c = ''a = '' @ [c]"

text \<open>
  The body of the echo loop:
  \<^verbatim>\<open>std::cin >> a; std::cout << "a = " << a << std::endl;\<close>
  The result of the extraction is not looked at: the line is printed whenever the
  extraction returns.
\<close>

definition echo_body :: "state \<Rightarrow> state option" where
  "echo_body s =
     (case extract_char (cin s) (a s) of
        None \<Rightarrow> None
      | Some (cin', a') \<Rightarrow> Some (s\<lparr>cin := cin', a := a', cout := cout s @ [echo a']\<rparr>))"

text \<open>
  \<^verbatim>\<open>while (cond) { body }  rest\<close>. The fuel counts iterations of the loop; \<open>rest\<close>
  is what follows the loop and runs once the condition is false. A body that never
  returns leaves the run \<open>Blocked\<close>, with the state the iteration began in.
\<close>

fun while_loop ::
  "nat \<Rightarrow> (state \<Rightarrow> bool) \<Rightarrow> (state \<Rightarrow> state option) \<Rightarrow> (state \<Rightarrow> status \<times> state)
     \<Rightarrow> state \<Rightarrow> status \<times> state" where
  "while_loop 0 cond body rest s = (if cond s then (Running, s) else rest s)"
| "while_loop (Suc n) cond body rest s =
     (if cond s then
        (case body s of
           None \<Rightarrow> (Blocked, s)
         | Some s' \<Rightarrow> while_loop n cond body rest s')
      else rest s)"

text \<open>\<^verbatim>\<open>while (true) { std::cin >> a; ... }  return 0;\<close>\<close>

definition echo_loop :: "nat \<Rightarrow> state \<Rightarrow> status \<times> state" where
  "echo_loop fuel = while_loop fuel (\<lambda>s. True) echo_body (\<lambda>s. (Exited 0, s))"

text \<open>
  \<^verbatim>\<open>main\<close>: the counting loop, then \<^verbatim>\<open>char a;\<close>, then
  \<^verbatim>\<open>while (true) { ... }\<close> and \<^verbatim>\<open>return 0;\<close>. The arguments \<open>argc\<close> and \<open>argv\<close>
  are read in comments only. The variable \<^verbatim>\<open>a\<close> is declared without an initialiser:
  \<open>a0\<close> is whatever its storage holds when the echo loop begins. The stream starts
  good; \<open>input\<close> is what arrives on it and \<open>eof\<close> whether end-of-file follows.
\<close>

definition main :: "nat \<Rightarrow> int \<Rightarrow> string list \<Rightarrow> char \<Rightarrow> string \<Rightarrow> bool \<Rightarrow> status \<times> state" where
  "main fuel argc argv a0 input eof =
     echo_loop fuel
       (for_loop 0 \<lparr>cin = \<lparr>buf = input, closed = eof, eofbit = False, failbit = False\<rparr>,
                    cout = [], a = a0, slept = 0\<rparr>)"

section \<open>Vocabulary of the specification\<close>

text \<open>The lines of the startup phase.\<close>

definition startup_lines :: "string list" where
  "startup_lines = [''0'', ''1'', ''2'', ''3'', ''4'']"

text \<open>An echo line: the prefix \<^verbatim>\<open>a = \<close> and one character.\<close>

definition is_echo_line :: "string \<Rightarrow> bool" where
  "is_echo_line l = (length l = 5 \<and> take 4 l = ''a = '')"

text \<open>The characters of an input that are not whitespace, in order.\<close>

definition nonspace :: "string \<Rightarrow> string" where
  "nonspace xs = filter (\<lambda>c. \<not> isspace c) xs"

text \<open>
  The whitespace-delimited tokens of an input, as the specification speaks of them:
  the maximal runs of characters that are not whitespace.
\<close>

function tokens :: "string \<Rightarrow> string list" where
  "tokens [] = []"
| "tokens (c # cs) =
     (if isspace c then tokens cs
      else (c # takeWhile (\<lambda>x. \<not> isspace x) cs) # tokens (dropWhile (\<lambda>x. \<not> isspace x) cs))"
  by pat_completeness auto
termination
  by (relation "measure length") (auto simp: length_dropWhile_le less_Suc_eq_le)

text \<open>The echo line the specification expects for a token: its first character.\<close>

definition token_echo :: "string \<Rightarrow> string" where
  "token_echo t = (case t of [] \<Rightarrow> ''a = '' | c # _ \<Rightarrow> echo c)"

section \<open>The two loops\<close>

text \<open>The counting loop runs five times and stops.\<close>

lemma show_int_digit: "0 \<le> i \<Longrightarrow> i < 10 \<Longrightarrow> show_int i = [digit_char (nat i)]"
  by (simp add: show_int_def dec_digits.simps)

lemma for_loop_0: "for_loop 0 s = s\<lparr>cout := cout s @ startup_lines, slept := slept s + 5\<rparr>"
  by (simp add: for_loop.simps sleep_def show_int_digit digit_char_def startup_lines_def)

lemma echo_loop_0 [simp]: "echo_loop 0 s = (Running, s)"
  by (simp add: echo_loop_def)

lemma echo_loop_Suc:
  "echo_loop (Suc n) s = (case echo_body s of None \<Rightarrow> (Blocked, s) | Some s' \<Rightarrow> echo_loop n s')"
  unfolding echo_loop_def by simp

lemma failbit_idem: "failbit c \<Longrightarrow> c\<lparr>failbit := True\<rparr> = c"
  by (cases c) simp

lemma echo_body_failed:
  "failbit (cin s) \<Longrightarrow> echo_body s = Some (s\<lparr>cout := cout s @ [echo (a s)]\<rparr>)"
  by (simp add: echo_body_def extract_char_def failbit_idem)

lemma echo_loop_failed:
  "failbit (cin s) \<Longrightarrow> echo_loop n s = (Running, s\<lparr>cout := cout s @ replicate n (echo (a s))\<rparr>)"
proof (induction n arbitrary: s)
  case 0
  show ?case by simp
next
  case (Suc n)
  let ?s = "s\<lparr>cout := cout s @ [echo (a s)]\<rparr>"
  have "echo_loop (Suc n) s = echo_loop n ?s"
    using Suc.prems by (simp add: echo_loop_Suc echo_body_failed)
  also have "\<dots> = (Running, ?s\<lparr>cout := cout ?s @ replicate n (echo (a ?s))\<rparr>)"
    using Suc.prems by (intro Suc.IH) simp
  finally show ?case by (simp add: replicate_app_Cons_same)
qed

lemma nonspace_dropWhile_Nil: "dropWhile isspace xs = [] \<Longrightarrow> nonspace xs = []"
  by (induction xs) (auto simp: nonspace_def split: if_splits)

lemma nonspace_dropWhile_Cons:
  "dropWhile isspace xs = c # rest \<Longrightarrow> \<not> isspace c \<and> nonspace xs = c # nonspace rest"
  by (induction xs) (auto simp: nonspace_def split: if_splits)

lemma echo_body_eof:
  "\<not> eofbit (cin s) \<Longrightarrow> \<not> failbit (cin s) \<Longrightarrow> dropWhile isspace (buf (cin s)) = [] \<Longrightarrow>
   closed (cin s) \<Longrightarrow>
   echo_body s = Some (s\<lparr>cin := (cin s)\<lparr>buf := [], eofbit := True, failbit := True\<rparr>,
                            cout := cout s @ [echo (a s)]\<rparr>)"
  by (simp add: echo_body_def extract_char_def del: dropWhile_eq_Nil_conv)

lemma echo_body_blocks:
  "\<not> eofbit (cin s) \<Longrightarrow> \<not> failbit (cin s) \<Longrightarrow> dropWhile isspace (buf (cin s)) = [] \<Longrightarrow>
   \<not> closed (cin s) \<Longrightarrow> echo_body s = None"
  by (simp add: echo_body_def extract_char_def del: dropWhile_eq_Nil_conv)

lemma echo_body_char:
  "\<not> eofbit (cin s) \<Longrightarrow> \<not> failbit (cin s) \<Longrightarrow> dropWhile isspace (buf (cin s)) = c # rest \<Longrightarrow>
   echo_body s = Some (s\<lparr>cin := (cin s)\<lparr>buf := rest\<rparr>, a := c, cout := cout s @ [echo c]\<rparr>)"
  by (simp add: echo_body_def extract_char_def)

lemma echo_loop_closed:
  "\<not> eofbit (cin s) \<Longrightarrow> \<not> failbit (cin s) \<Longrightarrow> closed (cin s) \<Longrightarrow>
   fst (echo_loop n s) = Running \<and>
   cout (snd (echo_loop n s)) =
     cout s @ take n (map echo (nonspace (buf (cin s))))
            @ replicate (n - length (nonspace (buf (cin s))))
                (echo (last (a s # nonspace (buf (cin s))))) \<and>
   a (snd (echo_loop n s)) = last (a s # take n (nonspace (buf (cin s)))) \<and>
   failbit (cin (snd (echo_loop n s))) = (length (nonspace (buf (cin s))) < n) \<and>
   eofbit (cin (snd (echo_loop n s))) = (length (nonspace (buf (cin s))) < n) \<and>
   slept (snd (echo_loop n s)) = slept s"
proof (induction n arbitrary: s)
  case 0
  then show ?case by simp
next
  case (Suc n)
  show ?case
  proof (cases "dropWhile isspace (buf (cin s))")
    case Nil
    let ?s = "s\<lparr>cin := (cin s)\<lparr>buf := [], eofbit := True, failbit := True\<rparr>,
                 cout := cout s @ [echo (a s)]\<rparr>"
    have ns: "nonspace (buf (cin s)) = []"
      using Nil by (rule nonspace_dropWhile_Nil)
    have "echo_loop (Suc n) s = echo_loop n ?s"
      using Suc.prems Nil by (simp add: echo_loop_Suc echo_body_eof)
    also have "\<dots> = (Running, ?s\<lparr>cout := cout ?s @ replicate n (echo (a ?s))\<rparr>)"
      by (rule echo_loop_failed) simp
    finally show ?thesis
      by (simp add: ns replicate_app_Cons_same)
  next
    case (Cons c rest)
    let ?s = "s\<lparr>cin := (cin s)\<lparr>buf := rest\<rparr>, a := c, cout := cout s @ [echo c]\<rparr>"
    have ns: "nonspace (buf (cin s)) = c # nonspace rest"
      using Cons by (simp add: nonspace_dropWhile_Cons)
    have step: "echo_loop (Suc n) s = echo_loop n ?s"
      using Suc.prems Cons by (simp add: echo_loop_Suc echo_body_char)
    have "\<not> eofbit (cin ?s)" "\<not> failbit (cin ?s)" "closed (cin ?s)"
      using Suc.prems by simp_all
    from Suc.IH [OF this] show ?thesis
      unfolding step by (simp add: ns)
  qed
qed

lemma echo_loop_open:
  "\<not> eofbit (cin s) \<Longrightarrow> \<not> failbit (cin s) \<Longrightarrow> \<not> closed (cin s) \<Longrightarrow>
   fst (echo_loop n s) = (if n \<le> length (nonspace (buf (cin s))) then Running else Blocked) \<and>
   cout (snd (echo_loop n s)) = cout s @ take n (map echo (nonspace (buf (cin s)))) \<and>
   a (snd (echo_loop n s)) = last (a s # take n (nonspace (buf (cin s)))) \<and>
   \<not> failbit (cin (snd (echo_loop n s))) \<and>
   \<not> eofbit (cin (snd (echo_loop n s))) \<and>
   slept (snd (echo_loop n s)) = slept s"
proof (induction n arbitrary: s)
  case 0
  then show ?case by simp
next
  case (Suc n)
  show ?case
  proof (cases "dropWhile isspace (buf (cin s))")
    case Nil
    have ns: "nonspace (buf (cin s)) = []"
      using Nil by (rule nonspace_dropWhile_Nil)
    have "echo_loop (Suc n) s = (Blocked, s)"
      using Suc.prems Nil by (simp add: echo_loop_Suc echo_body_blocks)
    then show ?thesis
      using Suc.prems by (simp add: ns)
  next
    case (Cons c rest)
    let ?s = "s\<lparr>cin := (cin s)\<lparr>buf := rest\<rparr>, a := c, cout := cout s @ [echo c]\<rparr>"
    have ns: "nonspace (buf (cin s)) = c # nonspace rest"
      using Cons by (simp add: nonspace_dropWhile_Cons)
    have step: "echo_loop (Suc n) s = echo_loop n ?s"
      using Suc.prems Cons by (simp add: echo_loop_Suc echo_body_char)
    have "\<not> eofbit (cin ?s)" "\<not> failbit (cin ?s)" "\<not> closed (cin ?s)"
      using Suc.prems by simp_all
    from Suc.IH [OF this] show ?thesis
      unfolding step by (simp add: ns)
  qed
qed

section \<open>A whole run\<close>

text \<open>
  What \<open>main\<close> has printed, what \<^verbatim>\<open>a\<close> holds and how the stream stands after any
  number of iterations of the echo loop, on a stream that ends and on one that stays
  open.
\<close>

lemma main_closed:
  "fst (main n argc argv a0 input True) = Running \<and>
   cout (snd (main n argc argv a0 input True)) =
     startup_lines @ take n (map echo (nonspace input))
       @ replicate (n - length (nonspace input)) (echo (last (a0 # nonspace input))) \<and>
   a (snd (main n argc argv a0 input True)) = last (a0 # take n (nonspace input)) \<and>
   failbit (cin (snd (main n argc argv a0 input True))) = (length (nonspace input) < n) \<and>
   eofbit (cin (snd (main n argc argv a0 input True))) = (length (nonspace input) < n) \<and>
   slept (snd (main n argc argv a0 input True)) = 5"
  unfolding main_def for_loop_0
  using echo_loop_closed [of "\<lparr>cin = \<lparr>buf = input, closed = True, eofbit = False, failbit = False\<rparr>,
      cout = [], a = a0, slept = 0\<rparr>\<lparr>cout := [] @ startup_lines, slept := 0 + 5\<rparr>" n]
  by simp

lemma main_open:
  "fst (main n argc argv a0 input False) =
     (if n \<le> length (nonspace input) then Running else Blocked) \<and>
   cout (snd (main n argc argv a0 input False)) =
     startup_lines @ take n (map echo (nonspace input)) \<and>
   a (snd (main n argc argv a0 input False)) = last (a0 # take n (nonspace input)) \<and>
   \<not> failbit (cin (snd (main n argc argv a0 input False))) \<and>
   \<not> eofbit (cin (snd (main n argc argv a0 input False))) \<and>
   slept (snd (main n argc argv a0 input False)) = 5"
  unfolding main_def for_loop_0
  using echo_loop_open [of "\<lparr>cin = \<lparr>buf = input, closed = False, eofbit = False, failbit = False\<rparr>,
      cout = [], a = a0, slept = 0\<rparr>\<lparr>cout := [] @ startup_lines, slept := 0 + 5\<rparr>" n]
  by simp

lemma length_startup_lines [simp]: "length startup_lines = 5"
  by (simp add: startup_lines_def)

lemma is_echo_line_echo [simp]: "is_echo_line (echo c)"
  by (simp add: is_echo_line_def echo_def)

lemma echo_lines_take: "list_all is_echo_line (take n (map echo cs))"
  by (auto simp: list_all_iff dest!: in_set_takeD)

lemma echo_lines_replicate: "list_all is_echo_line (replicate n (echo c))"
  by (simp add: list_all_iff)

lemma status_main:
  "fst (main n argc argv a0 input eof) =
     (if eof \<or> n \<le> length (nonspace input) then Running else Blocked)"
  using main_closed [of n argc argv a0 input] main_open [of n argc argv a0 input]
  by (cases eof) simp_all

lemma cout_main:
  "cout (snd (main n argc argv a0 input eof)) =
     startup_lines @ take n (map echo (nonspace input))
       @ replicate (if eof then n - length (nonspace input) else 0)
           (echo (last (a0 # nonspace input)))"
  using main_closed [of n argc argv a0 input] main_open [of n argc argv a0 input]
  by (cases eof) simp_all

lemma a_main:
  "a (snd (main n argc argv a0 input eof)) = last (a0 # take n (nonspace input))"
  using main_closed [of n argc argv a0 input] main_open [of n argc argv a0 input]
  by (cases eof) simp_all

lemma bits_main:
  "failbit (cin (snd (main n argc argv a0 input eof))) = (eof \<and> length (nonspace input) < n) \<and>
   eofbit (cin (snd (main n argc argv a0 input eof))) = (eof \<and> length (nonspace input) < n)"
  using main_closed [of n argc argv a0 input] main_open [of n argc argv a0 input]
  by (cases eof) simp_all

text \<open>Two runs, computed from the definitions.\<close>

lemma run_open_example:
  "main 3 1 [''server''] (CHR ''Z'') ''hi'' False =
     (Blocked, \<lparr>cin = \<lparr>buf = [], closed = False, eofbit = False, failbit = False\<rparr>,
                cout = [''0'', ''1'', ''2'', ''3'', ''4'', ''a = h'', ''a = i''],
                a = CHR ''i'', slept = 5\<rparr>)"
  by code_simp

lemma run_closed_example:
  "main 4 1 [''server''] (CHR ''Z'') ''h i '' True =
     (Running, \<lparr>cin = \<lparr>buf = [], closed = True, eofbit = True, failbit = True\<rparr>,
                 cout = [''0'', ''1'', ''2'', ''3'', ''4'', ''a = h'', ''a = i'', ''a = i'', ''a = i''],
                 a = CHR ''i'', slept = 5\<rparr>)"
  by code_simp

lemma nonspace_append [simp]: "nonspace (xs @ ys) = nonspace xs @ nonspace ys"
  by (simp add: nonspace_def)

text \<open>
  The first \<open>n\<close> iterations look at no more of the input than its first \<open>n\<close>
  characters that are not whitespace: what arrives later, and whether the stream ever
  ends, does not change them. A run on an input that never ends is, up to any
  iteration, a run on a prefix of it.
\<close>

lemma run_prefix:
  assumes "n \<le> length (nonspace input)"
  shows "fst (main n argc argv a0 (input @ later) eof) = fst (main n argc argv a0 input False)"
    and "cout (snd (main n argc argv a0 (input @ later) eof))
           = cout (snd (main n argc argv a0 input False))"
    and "a (snd (main n argc argv a0 (input @ later) eof))
           = a (snd (main n argc argv a0 input False))"
  using assms by (simp_all add: status_main cout_main a_main)

text \<open>One extraction on a good stream: the whitespace goes, one character is taken.\<close>

lemma extract_char_skips:
  assumes "list_all isspace ws" and "\<not> isspace c"
  shows "extract_char \<lparr>buf = ws @ c # rest, closed = eof, eofbit = False, failbit = False\<rparr> x
           = Some (\<lparr>buf = rest, closed = eof, eofbit = False, failbit = False\<rparr>, c)"
proof -
  have "dropWhile isspace (ws @ c # rest) = c # rest"
    using assms by (simp add: list_all_iff dropWhile_append3)
  then show ?thesis
    by (simp add: extract_char_def)
qed

lemma echoed_not_space:
  "list_all (\<lambda>l. \<not> isspace (last l)) (map echo (take n (nonspace input)))"
  by (auto simp: list_all_iff nonspace_def echo_def dest!: in_set_takeD)

text \<open>The tokens of an input, put together again, are its non-whitespace characters.\<close>

lemma nonspace_takeWhile_dropWhile:
  "nonspace cs = takeWhile (\<lambda>x. \<not> isspace x) cs @ nonspace (dropWhile (\<lambda>x. \<not> isspace x) cs)"
proof -
  have "nonspace cs
      = nonspace (takeWhile (\<lambda>x. \<not> isspace x) cs @ dropWhile (\<lambda>x. \<not> isspace x) cs)"
    by simp
  also have "\<dots> = nonspace (takeWhile (\<lambda>x. \<not> isspace x) cs)
                    @ nonspace (dropWhile (\<lambda>x. \<not> isspace x) cs)"
    by (rule nonspace_append)
  also have "nonspace (takeWhile (\<lambda>x. \<not> isspace x) cs) = takeWhile (\<lambda>x. \<not> isspace x) cs"
    unfolding nonspace_def by (induction cs) simp_all
  finally show ?thesis .
qed

lemma concat_tokens: "concat (tokens xs) = nonspace xs"
proof (induction xs rule: tokens.induct)
  case 1
  show ?case by (simp add: nonspace_def)
next
  case (2 c cs)
  show ?case
  proof (cases "isspace c")
    case True
    with 2 show ?thesis by (simp add: nonspace_def)
  next
    case False
    with 2 have "concat (tokens (c # cs))
        = c # takeWhile (\<lambda>x. \<not> isspace x) cs @ nonspace (dropWhile (\<lambda>x. \<not> isspace x) cs)"
      by simp
    also have "\<dots> = c # nonspace cs"
      using nonspace_takeWhile_dropWhile [of cs] by simp
    also have "\<dots> = nonspace (c # cs)"
      using False by (simp add: nonspace_def)
    finally show ?thesis .
  qed
qed

lemma single_char_tokens:
  "list_all (\<lambda>t. length t = 1) ts \<Longrightarrow> concat (map (map echo) ts) = map token_echo ts"
proof (induction ts)
  case Nil
  show ?case by simp
next
  case (Cons t ts)
  from Cons.prems obtain c where "t = [c]"
    by (cases t) auto
  with Cons show ?case
    by (simp add: token_echo_def)
qed

lemma echo_lines_open:
  "drop 5 (cout (snd (main (length (nonspace input) + k) argc argv a0 input False)))
     = map echo (nonspace input)"
  by (simp add: cout_main)

text \<open>Echo lines of different characters differ.\<close>

lemma echo_inject: "(echo x = echo y) = (x = y)"
  by (simp add: echo_def)

section \<open>The claims of the specification\<close>

text \<open>
  C1, as the specification words it, fails on the code. The input \<open>hi\<close> is one
  token, and the extraction of a \<^verbatim>\<open>char\<close> takes one character of it at a time:
  the run prints two echo lines, \<open>a = h\<close> and \<open>a = i\<close>, where the claim expects
  the single line \<open>a = h\<close>.
\<close>

theorem echo_per_token_counterexample:
  "tokens ''hi'' = [''hi''] \<and>
   drop 5 (cout (snd (main 3 1 [''server''] (CHR ''Z'') ''hi'' False))) = [''a = h'', ''a = i''] \<and>
   drop 5 (cout (snd (main 3 1 [''server''] (CHR ''Z'') ''hi'' False)))
     \<noteq> map token_echo (tokens ''hi'')"
  by code_simp

text \<open>
  C1, amended. The program consumes one non-whitespace character at a time. Once the
  input is consumed (on a stream that stays open, however long the run; on a stream
  that ends, before the first extraction that fails), the echo lines are those of the
  whitespace-delimited tokens in order, each token giving one line per character of
  the token, \<open>a = \<close> followed by that character. When every token is a single
  character, that is one echo line per token, \<open>a = \<close> followed by the first
  character of the token.
\<close>

theorem echo_per_token_char:
  "drop 5 (cout (snd (main (length (nonspace input) + k) argc argv a0 input False)))
     = concat (map (map echo) (tokens input)) \<and>
   drop 5 (cout (snd (main (length (nonspace input)) argc argv a0 input True)))
     = concat (map (map echo) (tokens input)) \<and>
   (list_all (\<lambda>t. length t = 1) (tokens input) \<longrightarrow>
      drop 5 (cout (snd (main (length (nonspace input) + k) argc argv a0 input False)))
        = map token_echo (tokens input))"
proof -
  have "map echo (nonspace input) = concat (map (map echo) (tokens input))"
    by (simp add: concat_tokens [symmetric] map_concat)
  moreover have "drop 5 (cout (snd (main (length (nonspace input)) argc argv a0 input True)))
                   = map echo (nonspace input)"
    by (simp add: cout_main)
  ultimately show ?thesis
    by (simp add: echo_lines_open single_char_tokens)
qed

theorem echo_per_token_char_witness:
  "list_all (\<lambda>t. length t = 1) (tokens ''x  y'') \<and>
   drop 5 (cout (snd (main 4 1 [''server''] (CHR ''Z'') ''x  y'' False)))
     = concat (map (map echo) (tokens ''x  y'')) \<and>
   drop 5 (cout (snd (main 4 1 [''server''] (CHR ''Z'') ''x  y'' False)))
     = map token_echo (tokens ''x  y'')"
proof -
  have t: "tokens ''x  y'' = [''x'', ''y'']"
    by (simp add: isspace_def)
  have n: "nonspace ''x  y'' = ''xy''"
    by (simp add: nonspace_def isspace_def)
  have h: "list_all (\<lambda>t. length t = 1) (tokens ''x  y'')"
    unfolding t by simp
  have fuel: "length (nonspace ''x  y'') + 2 = 4"
    by (simp add: n)
  from h echo_per_token_char [of "''x  y''" 2 1 "[''server'']" "CHR ''Z''", unfolded fuel]
  show ?thesis
    by blast
qed

text \<open>
  C2. The startup phase emits exactly the five lines \<open>0\<close>, \<open>1\<close>, \<open>2\<close>, \<open>3\<close>, \<open>4\<close>, in
  that order: they are the whole output when the echo loop has not run yet, they are
  the first five lines of the output of every run, whatever the input, and every line
  after them is an echo line, which none of the five is.
\<close>

theorem startup_before_echo:
  "cout (snd (main 0 argc argv a0 input eof)) = [''0'', ''1'', ''2'', ''3'', ''4''] \<and>
   take 5 (cout (snd (main fuel argc argv a0 input eof))) = [''0'', ''1'', ''2'', ''3'', ''4''] \<and>
   list_all is_echo_line (drop 5 (cout (snd (main fuel argc argv a0 input eof)))) \<and>
   list_all (\<lambda>l. \<not> is_echo_line l) (take 5 (cout (snd (main fuel argc argv a0 input eof))))"
proof -
  have sl: "startup_lines = [''0'', ''1'', ''2'', ''3'', ''4'']"
    by (simp add: startup_lines_def)
  have "cout (snd (main 0 argc argv a0 input eof)) = startup_lines"
    by (simp add: cout_main)
  moreover have t5: "take 5 (cout (snd (main fuel argc argv a0 input eof))) = startup_lines"
    by (simp add: cout_main)
  moreover have "list_all is_echo_line (drop 5 (cout (snd (main fuel argc argv a0 input eof))))"
    by (simp add: cout_main echo_lines_take echo_lines_replicate)
  moreover have "list_all (\<lambda>l. \<not> is_echo_line l) startup_lines"
    by (simp add: startup_lines_def is_echo_line_def)
  ultimately show ?thesis
    by (simp add: sl)
qed

theorem startup_before_echo_witness:
  "cout (snd (main 0 1 [''server''] (CHR ''Z'') ''hi'' True)) = [''0'', ''1'', ''2'', ''3'', ''4''] \<and>
   take 5 (cout (snd (main 3 1 [''server''] (CHR ''Z'') ''hi'' True))) = [''0'', ''1'', ''2'', ''3'', ''4''] \<and>
   list_all is_echo_line (drop 5 (cout (snd (main 3 1 [''server''] (CHR ''Z'') ''hi'' True)))) \<and>
   list_all (\<lambda>l. \<not> is_echo_line l) (take 5 (cout (snd (main 3 1 [''server''] (CHR ''Z'') ''hi'' True))))"
  by (rule startup_before_echo)

text \<open>
  C3. On an input that does not close the stream the process never terminates on its
  own: after any number of iterations of the echo loop the run is still in the loop,
  or inside an extraction that waits for input, and never past \<^verbatim>\<open>return 0\<close>.
\<close>

theorem never_returns:
  "fst (main fuel argc argv a0 input False)
     = (if fuel \<le> length (nonspace input) then Running else Blocked) \<and>
   fst (main fuel argc argv a0 input False) \<noteq> Exited r"
  by (simp add: status_main)

theorem never_returns_witness:
  "fst (main 2 1 [''server''] (CHR ''Z'') ''hi there'' False) = Running \<and>
   fst (main 9 1 [''server''] (CHR ''Z'') ''hi there'' False) = Blocked \<and>
   fst (main 9 1 [''server''] (CHR ''Z'') ''hi there'' False) \<noteq> Exited 0"
  using never_returns [of 2 1 "[''server'']" "CHR ''Z''" "''hi there''" 0]
    never_returns [of 9 1 "[''server'']" "CHR ''Z''" "''hi there''" 0]
  by (simp add: nonspace_def isspace_def)

text \<open>
  C4, as the specification words it, fails on the code. Two runs on the same empty
  input that ends, with different arguments, print different lines when the
  uninitialised variable holds different bytes: the first extraction fails and the
  echo line shows that byte, which neither the input nor the claim fixes.
\<close>

theorem arguments_counterexample:
  "cout (snd (main 1 1 [''server''] (CHR ''Z'') '''' True))
     = [''0'', ''1'', ''2'', ''3'', ''4'', ''a = Z''] \<and>
   cout (snd (main 1 2 [''server'', ''-v''] (CHR ''Q'') '''' True))
     = [''0'', ''1'', ''2'', ''3'', ''4'', ''a = Q''] \<and>
   cout (snd (main 1 1 [''server''] (CHR ''Z'') '''' True))
     \<noteq> cout (snd (main 1 2 [''server'', ''-v''] (CHR ''Q'') '''' True))"
  by code_simp

text \<open>
  C4, amended. The arguments are never used: whatever \<open>argc\<close> and \<open>argv\<close> are, two
  runs on the same standard input stand in the same status after the same number of
  iterations, and have written the same lines exactly when the uninitialised content
  of the variable is never printed (no iteration has run, the stream stays open, or
  the input holds a character that is not whitespace) or is the same in both runs.
\<close>

theorem output_ignores_arguments:
  "fst (main fuel argc argv a0 input eof) = fst (main fuel argc' argv' a0' input eof) \<and>
   (cout (snd (main fuel argc argv a0 input eof)) = cout (snd (main fuel argc' argv' a0' input eof)))
     = (a0 = a0' \<or> fuel = 0 \<or> \<not> eof \<or> nonspace input \<noteq> [])"
proof (cases "nonspace input = []")
  case True
  then show ?thesis
    by (auto simp: status_main cout_main echo_inject)
next
  case False
  then show ?thesis
    by (simp add: status_main cout_main)
qed

theorem output_ignores_arguments_witness:
  "nonspace ''hi'' \<noteq> [] \<and>
   cout (snd (main 4 1 [''server''] (CHR ''Z'') ''hi'' True))
     = cout (snd (main 4 3 [''server'', ''-v'', ''x''] (CHR ''Q'') ''hi'' True)) \<and>
   cout (snd (main 2 1 [''server''] (CHR ''Z'') '' '' False))
     = cout (snd (main 2 3 [''server'', ''-v'', ''x''] (CHR ''Q'') '' '' False)) \<and>
   fst (main 4 1 [''server''] (CHR ''Z'') ''hi'' True)
     = fst (main 4 3 [''server'', ''-v'', ''x''] (CHR ''Q'') ''hi'' True)"
proof -
  have h: "nonspace ''hi'' \<noteq> []"
    by code_simp
  have "CHR ''Z'' = CHR ''Q'' \<or> (4::nat) = 0 \<or> \<not> True \<or> nonspace ''hi'' \<noteq> []"
    using h by simp
  with output_ignores_arguments
    [of 4 1 "[''server'']" "CHR ''Z''" "''hi''" True 3 "[''server'', ''-v'', ''x'']" "CHR ''Q''"]
  have one: "cout (snd (main 4 1 [''server''] (CHR ''Z'') ''hi'' True))
     = cout (snd (main 4 3 [''server'', ''-v'', ''x''] (CHR ''Q'') ''hi'' True))"
    and st: "fst (main 4 1 [''server''] (CHR ''Z'') ''hi'' True)
     = fst (main 4 3 [''server'', ''-v'', ''x''] (CHR ''Q'') ''hi'' True)"
    by blast+
  have "CHR ''Z'' = CHR ''Q'' \<or> (2::nat) = 0 \<or> \<not> False \<or> nonspace '' '' \<noteq> []"
    by simp
  with output_ignores_arguments
    [of 2 1 "[''server'']" "CHR ''Z''" "'' ''" False 3 "[''server'', ''-v'', ''x'']" "CHR ''Q''"]
  have two: "cout (snd (main 2 1 [''server''] (CHR ''Z'') '' '' False))
     = cout (snd (main 2 3 [''server'', ''-v'', ''x''] (CHR ''Q'') '' '' False))"
    by blast
  from h one two st show ?thesis
    by blast
qed

text \<open>
  C5, as the specification words it, fails on the code. With no character to read
  (an empty input that ends), the first echo line is printed all the same and shows
  what the uninitialised variable holds: two runs on the same empty input print
  \<open>a = Z\<close> and \<open>a = Q\<close>, neither of them a character of the input.
\<close>

theorem echo_of_unread_counterexample:
  "nonspace '''' = '''' \<and>
   drop 5 (cout (snd (main 1 1 [''server''] (CHR ''Z'') '''' True))) = [''a = Z''] \<and>
   drop 5 (cout (snd (main 1 1 [''server''] (CHR ''Q'') '''' True))) = [''a = Q'']"
  by code_simp

text \<open>
  C5, amended. Every echo line shows the value the character variable holds right
  after the extraction before it. That is the character just read when the extraction
  succeeded, the last character read before it when it failed, and the uninitialised
  content of the variable when no extraction has succeeded yet.
\<close>

theorem echo_shows_variable:
  assumes "k < length (drop 5 (cout (snd (main n argc argv a0 input eof))))"
  shows "drop 5 (cout (snd (main n argc argv a0 input eof))) ! k
           = echo (a (snd (main (Suc k) argc argv a0 input eof))) \<and>
         a (snd (main (Suc k) argc argv a0 input eof))
           = (if k < length (nonspace input) then nonspace input ! k
              else last (a0 # nonspace input))"
proof -
  let ?cs = "nonspace input"
  have a_eq: "a (snd (main (Suc k) argc argv a0 input eof))
                = (if k < length ?cs then ?cs ! k else last (a0 # ?cs))"
    by (simp add: a_main take_Suc_conv_app_nth)
  have len: "k < min n (length ?cs) + (if eof then n - length ?cs else 0)"
    using assms by (simp add: cout_main min_def split: if_splits)
  have "drop 5 (cout (snd (main n argc argv a0 input eof))) ! k
          = echo (if k < length ?cs then ?cs ! k else last (a0 # ?cs))"
  proof (cases "k < length ?cs")
    case True
    with len have "k < n"
      by (simp split: if_splits)
    with True show ?thesis
      by (simp add: cout_main nth_append)
  next
    case False
    with len show ?thesis
      by (simp add: cout_main nth_append split: if_splits)
  qed
  with a_eq show ?thesis
    by simp
qed

theorem echo_shows_variable_witness:
  "1 < length (drop 5 (cout (snd (main 4 1 [''server''] (CHR ''Z'') ''h i'' True)))) \<and>
   drop 5 (cout (snd (main 4 1 [''server''] (CHR ''Z'') ''h i'' True))) ! 1
     = echo (a (snd (main 2 1 [''server''] (CHR ''Z'') ''h i'' True))) \<and>
   a (snd (main 2 1 [''server''] (CHR ''Z'') ''h i'' True)) = CHR ''i''"
proof -
  have n: "nonspace ''h i'' = ''hi''"
    by (simp add: nonspace_def isspace_def)
  have h: "1 < length (drop 5 (cout (snd (main 4 1 [''server''] (CHR ''Z'') ''h i'' True))))"
    by code_simp
  show ?thesis
    using h echo_shows_variable [OF h] by (simp add: n numeral_2_eq_2)
qed

text \<open>
  C6. The program handles no input-stream error. On a stream that ends, every one of
  \<open>n\<close> iterations prints its echo line, so there are \<open>n\<close> echo lines and nothing
  else after the startup lines, although only the extractions of the non-whitespace
  characters of the input succeed; from the first failure on \<open>failbit\<close> stays set,
  is never reported and never cleared, and the run goes on.
\<close>

theorem echo_despite_failure:
  "fst (main n argc argv a0 input True) = Running \<and>
   length (cout (snd (main n argc argv a0 input True))) = 5 + n \<and>
   list_all is_echo_line (drop 5 (cout (snd (main n argc argv a0 input True)))) \<and>
   failbit (cin (snd (main n argc argv a0 input True))) = (length (nonspace input) < n)"
proof -
  have "length (cout (snd (main n argc argv a0 input True))) = 5 + n"
    by (simp add: cout_main min_def)
  moreover have "list_all is_echo_line (drop 5 (cout (snd (main n argc argv a0 input True))))"
    by (simp add: cout_main echo_lines_take echo_lines_replicate)
  ultimately show ?thesis
    by (simp add: status_main bits_main)
qed

theorem echo_despite_failure_witness:
  "fst (main 4 1 [''server''] (CHR ''Z'') ''hi'' True) = Running \<and>
   length (cout (snd (main 4 1 [''server''] (CHR ''Z'') ''hi'' True))) = 9 \<and>
   list_all is_echo_line (drop 5 (cout (snd (main 4 1 [''server''] (CHR ''Z'') ''hi'' True)))) \<and>
   failbit (cin (snd (main 4 1 [''server''] (CHR ''Z'') ''hi'' True)))"
  using echo_despite_failure [of 4 1 "[''server'']" "CHR ''Z''" "''hi''"]
  by (simp add: nonspace_def isspace_def)

text \<open>
  C8. An extraction on a good stream skips the whitespace and consumes exactly one
  non-whitespace character. So while the stream remains good, that is for the first
  \<open>n\<close> iterations with \<open>n\<close> at most the number \<open>N\<close> of non-whitespace characters
  of the input, there are exactly \<open>n\<close> echo lines, those of the first \<open>n\<close>
  non-whitespace characters in input order, none of them whitespace; on a stream that
  stays open the echo lines are exactly the \<open>N\<close> lines of the \<open>N\<close> characters, however
  long the run.
\<close>

theorem echo_per_nonspace_char:
  assumes "list_all isspace ws" and "\<not> isspace c" and "n \<le> length (nonspace input)"
  shows "extract_char \<lparr>buf = ws @ c # rest, closed = eof, eofbit = False, failbit = False\<rparr> x
           = Some (\<lparr>buf = rest, closed = eof, eofbit = False, failbit = False\<rparr>, c) \<and>
         fst (main n argc argv a0 input eof) = Running \<and>
         drop 5 (cout (snd (main n argc argv a0 input eof))) = map echo (take n (nonspace input)) \<and>
         length (drop 5 (cout (snd (main n argc argv a0 input eof)))) = n \<and>
         list_all (\<lambda>l. \<not> isspace (last l)) (drop 5 (cout (snd (main n argc argv a0 input eof)))) \<and>
         \<not> failbit (cin (snd (main n argc argv a0 input eof))) \<and>
         \<not> eofbit (cin (snd (main n argc argv a0 input eof))) \<and>
         drop 5 (cout (snd (main (length (nonspace input) + k) argc argv a0 input False)))
           = map echo (nonspace input)"
proof -
  have lines: "drop 5 (cout (snd (main n argc argv a0 input eof)))
                 = map echo (take n (nonspace input))"
    using assms(3) by (simp add: cout_main take_map)
  have "length (drop 5 (cout (snd (main n argc argv a0 input eof)))) = n"
    using assms(3) by (simp add: cout_main)
  moreover have "list_all (\<lambda>l. \<not> isspace (last l))
                   (drop 5 (cout (snd (main n argc argv a0 input eof))))"
    unfolding lines by (rule echoed_not_space)
  moreover note lines extract_char_skips [OF assms(1,2)] echo_lines_open
  ultimately show ?thesis
    using assms(3) by (simp add: status_main bits_main)
qed

theorem echo_per_nonspace_char_witness:
  "list_all isspace [CHR '' '', CHR 0x0A] \<and> \<not> isspace (CHR ''a'') \<and>
   2 \<le> length (nonspace '' a b c'') \<and>
   extract_char \<lparr>buf = [CHR '' '', CHR 0x0A] @ CHR ''a'' # '' b'', closed = True,
                  eofbit = False, failbit = False\<rparr> (CHR ''Z'')
     = Some (\<lparr>buf = '' b'', closed = True, eofbit = False, failbit = False\<rparr>, CHR ''a'') \<and>
   fst (main 2 1 [''server''] (CHR ''Z'') '' a b c'' True) = Running \<and>
   drop 5 (cout (snd (main 2 1 [''server''] (CHR ''Z'') '' a b c'' True)))
     = [''a = a'', ''a = b''] \<and>
   list_all (\<lambda>l. \<not> isspace (last l))
     (drop 5 (cout (snd (main 2 1 [''server''] (CHR ''Z'') '' a b c'' True)))) \<and>
   \<not> failbit (cin (snd (main 2 1 [''server''] (CHR ''Z'') '' a b c'' True))) \<and>
   drop 5 (cout (snd (main 7 1 [''server''] (CHR ''Z'') '' a b c'' False)))
     = [''a = a'', ''a = b'', ''a = c'']"
proof -
  have w: "list_all isspace [CHR '' '', CHR 0x0A]" and c: "\<not> isspace (CHR ''a'')"
    by (simp_all add: isspace_def)
  have n: "nonspace '' a b c'' = ''abc''"
    by (simp add: nonspace_def isspace_def)
  have h: "2 \<le> length (nonspace '' a b c'')"
    by (simp add: n)
  have fuel: "length ''abc'' + 4 = 7"
    by simp
  have lines: "map echo (take 2 ''abc'') = [''a = a'', ''a = b'']"
      "map echo ''abc'' = [''a = a'', ''a = b'', ''a = c'']"
    by (simp_all add: echo_def)
  from echo_per_nonspace_char [OF w c h, of "'' b''" True "CHR ''Z''" 1 "[''server'']" "CHR ''Z''" 4,
      unfolded n fuel lines] w c h
  show ?thesis
    by blast
qed

text \<open>
  C9. Once the stream has ended the echo loop still never terminates. With at least
  one character read, every extraction after the last character fails without
  blocking and leaves the variable as it is: after \<open>k\<close> more iterations the run is
  still in the loop, has printed \<open>k\<close> more lines \<open>a = \<close> and the last character read,
  and the stream has failed.
\<close>

theorem closed_stream_spins:
  assumes "nonspace input \<noteq> []"
  shows "fst (main (length (nonspace input) + k) argc argv a0 input True) = Running \<and>
         drop 5 (cout (snd (main (length (nonspace input) + k) argc argv a0 input True)))
           = map echo (nonspace input) @ replicate k (echo (last (nonspace input))) \<and>
         a (snd (main (length (nonspace input) + k) argc argv a0 input True))
           = last (nonspace input) \<and>
         failbit (cin (snd (main (length (nonspace input) + Suc k) argc argv a0 input True)))"
  using assms by (simp add: status_main cout_main a_main bits_main)

theorem closed_stream_spins_witness:
  "nonspace ''hi'' \<noteq> [] \<and>
   fst (main 5 1 [''server''] (CHR ''Z'') ''hi'' True) = Running \<and>
   drop 5 (cout (snd (main 5 1 [''server''] (CHR ''Z'') ''hi'' True)))
     = [''a = h'', ''a = i'', ''a = i'', ''a = i'', ''a = i''] \<and>
   a (snd (main 5 1 [''server''] (CHR ''Z'') ''hi'' True)) = CHR ''i''"
proof -
  have n: "nonspace ''hi'' = ''hi''"
    by (simp add: nonspace_def isspace_def)
  have h: "nonspace ''hi'' \<noteq> []"
    by (simp add: n)
  show ?thesis
    using h closed_stream_spins [OF h, of 3 1 "[''server'']" "CHR ''Z''"]
    by (simp add: n echo_def numeral_eq_Suc)
qed

text \<open>
  C10. The variable is declared without an initialiser. If the very first extraction
  fails, the first echo line, the sixth line of the output, is \<open>a = \<close> followed by
  \<open>a0\<close>, the indeterminate content of the variable, whatever the input is, and the
  variable still holds it.
\<close>

theorem first_echo_uninitialised:
  assumes "failbit (cin (snd (main 1 argc argv a0 input eof)))"
  shows "cout (snd (main (Suc n) argc argv a0 input eof)) ! 5 = ''a = '' @ [a0] \<and>
         a (snd (main (Suc n) argc argv a0 input eof)) = a0"
proof -
  from assms have e: "eof" and "length (nonspace input) < 1"
    by (simp_all add: bits_main)
  then have n: "nonspace input = []"
    by simp
  show ?thesis
    by (simp add: cout_main a_main n e nth_append echo_def)
qed

theorem first_echo_uninitialised_witness:
  "failbit (cin (snd (main 1 1 [''server''] (CHR ''Z'') '' '' True))) \<and>
   cout (snd (main 3 1 [''server''] (CHR ''Z'') '' '' True)) ! 5 = ''a = Z'' \<and>
   a (snd (main 3 1 [''server''] (CHR ''Z'') '' '' True)) = CHR ''Z''"
proof -
  have h: "failbit (cin (snd (main 1 1 [''server''] (CHR ''Z'') '' '' True)))"
    by code_simp
  show ?thesis
    using h first_echo_uninitialised [OF h, of 2]
    by (simp add: numeral_eq_Suc)
qed

end
